theory Spec2Isabelle
  imports Main
begin

section \<open>Admission validation: pkg/webhook/admission/validator.go\<close>

text \<open>
  A shallow embedding of the validating admission handler and of the adapter
  \<open>ValidatorWrapper\<close>. Go panics are values of a sum type, interface values are
  options (\<open>None\<close> is the nil interface), dynamic dispatch goes through the method
  sets of the program's concrete types, and every call that leaves the file
  (decoder, validation capability, deep copy) is recorded in a call list, the
  way a spy collaborator would record it.
\<close>

subsection \<open>Go values: errors, panics, objects\<close>

text \<open>A non-nil \<open>error\<close>; \<open>Error\<close> is its \<open>Error()\<close> method. A nil error is \<open>None\<close>.\<close>

datatype go_error = GoError (Error: string)

text \<open>
  The three ways this file can panic: the explicit \<open>panic(v)\<close> statement, a failed
  unchecked type assertion \<open>x.(I)\<close> (it carries the dynamic type of \<open>x\<close>, \<open>None\<close>
  for a nil interface), and a method call through a nil interface or nil pointer.
\<close>

datatype panic =
    PanicValue string
  | TypeAssertionError "string option"
  | NilPointerDereference

type_synonym type_name = string

text \<open>
  A non-nil value of interface type \<open>runtime.Object\<close>: its dynamic (concrete) type
  and the contents it points to. Objects are values here: \<open>DeepCopyObject\<close> is
  taken to return storage of its own, as its contract says, so that decoding
  into one instance never changes another.
\<close>

datatype 'd runtime_Object = Obj (dyn_type: type_name) (contents: 'd)

type_synonym 'd iface = "'d runtime_Object option"

text \<open>
  The methods a concrete type needs, beyond those of \<open>runtime.Object\<close>, to satisfy
  the interface \<open>Validator\<close>. The first argument is the receiver.
\<close>

record 'd Validator_methods =
  Validator_ValidateCreate :: "'d \<Rightarrow> panic + go_error option"
  Validator_ValidateUpdate :: "'d \<Rightarrow> 'd iface \<Rightarrow> panic + go_error option"
  Validator_ValidateDelete :: "'d \<Rightarrow> panic + go_error option"

text \<open>
  The method set of a concrete type: every \<open>runtime.Object\<close> has \<open>DeepCopyObject\<close>;
  \<open>Validator_impl\<close> is \<open>Some\<close> exactly when the type implements \<open>Validator\<close>.
\<close>

record 'd type_decl =
  runtime_Object_DeepCopyObject :: "'d \<Rightarrow> panic + 'd iface"
  Validator_impl :: "'d Validator_methods option"

type_synonym 'd types = "type_name \<Rightarrow> 'd type_decl"

text \<open>The call \<open>obj.DeepCopyObject()\<close> on an interface value.\<close>

definition DeepCopyObject :: "'d types \<Rightarrow> 'd iface \<Rightarrow> panic + 'd iface" where
  "DeepCopyObject T obj =
     (case obj of
        None \<Rightarrow> Inl NilPointerDereference
      | Some x \<Rightarrow> runtime_Object_DeepCopyObject (T (dyn_type x)) (contents x))"

text \<open>
  The unchecked type assertion \<open>obj.(Validator)\<close>: it panics on a nil interface
  and on a dynamic type that lacks the methods of \<open>Validator\<close>; otherwise it
  gives the object together with its type's methods.
\<close>

definition assert_Validator ::
  "'d types \<Rightarrow> 'd iface \<Rightarrow> panic + ('d Validator_methods \<times> 'd runtime_Object)" where
  "assert_Validator T obj =
     (case obj of
        None \<Rightarrow> Inl (TypeAssertionError None)
      | Some x \<Rightarrow>
          (case Validator_impl (T (dyn_type x)) of
             None \<Rightarrow> Inl (TypeAssertionError (Some (dyn_type x)))
           | Some m \<Rightarrow> Inr (m, x)))"

definition implements_Validator :: "'d types \<Rightarrow> 'd iface \<Rightarrow> bool" where
  "implements_Validator T obj =
     (case obj of
        None \<Rightarrow> False
      | Some x \<Rightarrow> Validator_impl (T (dyn_type x)) \<noteq> None)"

subsection \<open>Requests and responses\<close>

text \<open>
  \<open>v1beta1.Operation\<close> is a string type of the Kubernetes API; the constants are
  its named values.
\<close>

type_synonym Operation = string

definition Create :: Operation where "Create = ''CREATE''"
definition Update :: Operation where "Update = ''UPDATE''"
definition Delete :: Operation where "Delete = ''DELETE''"
definition Connect :: Operation where "Connect = ''CONNECT''"

text \<open>\<open>runtime.RawExtension\<close>: the raw encoded bytes of an object.\<close>

type_synonym RawExtension = string

text \<open>
  \<open>v1beta1.AdmissionRequest\<close>: the fields the handler reads, and request metadata
  that is only passed on to the validation capability.
\<close>

record AdmissionRequest =
  UID :: string
  Operation :: Operation
  UserInfo :: string
  Object :: RawExtension
  OldObject :: RawExtension
  DryRun :: bool

text \<open>
  \<open>Request\<close>, declared elsewhere in the package, embeds the \<open>AdmissionRequest\<close>:
  \<open>req.Operation\<close> is \<open>Operation (AdmissionRequest req)\<close>.
\<close>

record Request =
  AdmissionRequest :: AdmissionRequest

text \<open>
  Modelled from the spec: the response constructors \<open>Allowed\<close>, \<open>Denied\<close> and
  \<open>Errored\<close> of this package are declared outside validator.go. A verdict is
  Allowed (called with a reason), Denied with a reason, or Errored with an
  HTTP-style status code and the underlying error.
\<close>

datatype Response =
    Allowed string
  | Denied string
  | Errored int go_error

definition StatusBadRequest :: int where
  "StatusBadRequest = 400"

subsection \<open>The collaborators: MetaValidator and Decoder\<close>

text \<open>
  The interface \<open>MetaValidator\<close> as the record of its four methods (the receiver
  is fixed in each). Any of them may panic: those of the adapter below do.
\<close>

record 'd MetaValidator =
  MetaValidator_DeepCopyObject :: "panic + 'd iface"
  MetaValidator_ValidateCreate :: "'d iface \<Rightarrow> AdmissionRequest \<Rightarrow> panic + go_error option"
  MetaValidator_ValidateUpdate ::
    "'d iface \<Rightarrow> 'd iface \<Rightarrow> AdmissionRequest \<Rightarrow> panic + go_error option"
  MetaValidator_ValidateDelete :: "'d iface \<Rightarrow> AdmissionRequest \<Rightarrow> panic + go_error option"

text \<open>
  What a decode into a target leaves behind: the error, or the target with the
  decoded contents.
\<close>

datatype 'd decoded = DecodeError go_error | Decoded "'d iface"

text \<open>
  The \<open>Decoder\<close> of this package is declared outside validator.go; its two
  methods are parameters of the model. They write through the target, which the
  model returns updated.
\<close>

record 'd Decoder =
  Decode :: "Request \<Rightarrow> 'd iface \<Rightarrow> 'd decoded"
  DecodeRaw :: "RawExtension \<Rightarrow> 'd iface \<Rightarrow> 'd decoded"

text \<open>
  Modelled from the spec: the bodies of \<open>Decoder.Decode\<close> and \<open>Decoder.DecodeRaw\<close>
  are not in validator.go; the spec gives them as \<open>decode(request, target) -> error\<close>
  and \<open>decodeRaw(bytes, target) -> error\<close>. The handler holds a \<open>*Decoder\<close>, which
  is nil until \<open>InjectDecoder\<close> sets it. A call through a non-nil pointer returns
  what the decoder's method returns; a call through a nil pointer is taken to
  fault with a nil dereference, as a Go method does when it reads a field of its
  nil receiver.
\<close>

definition Decoder_Decode ::
  "'d Decoder option \<Rightarrow> Request \<Rightarrow> 'd iface \<Rightarrow> panic + 'd decoded" where
  "Decoder_Decode dec req into =
     (case dec of
        None \<Rightarrow> Inl NilPointerDereference
      | Some d \<Rightarrow> Inr (Decode d req into))"

definition Decoder_DecodeRaw ::
  "'d Decoder option \<Rightarrow> RawExtension \<Rightarrow> 'd iface \<Rightarrow> panic + 'd decoded" where
  "Decoder_DecodeRaw dec rawObj into =
     (case dec of
        None \<Rightarrow> Inl NilPointerDereference
      | Some d \<Rightarrow> Inr (DecodeRaw d rawObj into))"

subsection \<open>ValidatorWrapper\<close>

text \<open>
  The field \<open>Validator\<close> is an interface value: nil, or an object whose type
  implements \<open>Validator\<close>.
\<close>

record 'd ValidatorWrapper =
  Validator :: "'d iface"

text \<open>The calls the adapter makes on the methods of \<open>Validator\<close>, with the receiver.\<close>

datatype 'd Validator_call =
    Called_ValidateCreate "'d runtime_Object"
  | Called_ValidateUpdate "'d runtime_Object" "'d iface"
  | Called_ValidateDelete "'d runtime_Object"

definition ValidatorWrapper_DeepCopyObject ::
  "'d types \<Rightarrow> 'd ValidatorWrapper \<Rightarrow> panic + 'd iface" where
  "ValidatorWrapper_DeepCopyObject T v = DeepCopyObject T (Validator v)"

definition ValidatorWrapper_ValidateCreate ::
  "'d types \<Rightarrow> 'd ValidatorWrapper \<Rightarrow> 'd iface \<Rightarrow> AdmissionRequest
     \<Rightarrow> 'd Validator_call list \<times> (panic + go_error option)" where
  "ValidatorWrapper_ValidateCreate T v obj req =
     (case assert_Validator T obj of
        Inl p \<Rightarrow> ([], Inl p)
      | Inr (m, x) \<Rightarrow> ([Called_ValidateCreate x], Validator_ValidateCreate m (contents x)))"

definition ValidatorWrapper_ValidateDelete ::
  "'d types \<Rightarrow> 'd ValidatorWrapper \<Rightarrow> 'd iface \<Rightarrow> AdmissionRequest
     \<Rightarrow> 'd Validator_call list \<times> (panic + go_error option)" where
  "ValidatorWrapper_ValidateDelete T v obj req =
     (case assert_Validator T obj of
        Inl p \<Rightarrow> ([], Inl p)
      | Inr (m, x) \<Rightarrow> ([Called_ValidateDelete x], Validator_ValidateDelete m (contents x)))"

definition ValidatorWrapper_ValidateUpdate ::
  "'d types \<Rightarrow> 'd ValidatorWrapper \<Rightarrow> 'd iface \<Rightarrow> 'd iface \<Rightarrow> AdmissionRequest
     \<Rightarrow> 'd Validator_call list \<times> (panic + go_error option)" where
  "ValidatorWrapper_ValidateUpdate T v obj old req =
     (case assert_Validator T obj of
        Inl p \<Rightarrow> ([], Inl p)
      | Inr (m, x) \<Rightarrow>
          ([Called_ValidateUpdate x old], Validator_ValidateUpdate m (contents x) old))"

text \<open>
  \<open>NewValidatorWrapper\<close> returns the wrapper as a \<open>MetaValidator\<close>: the interface
  value whose methods are the wrapper's.
\<close>

definition NewValidatorWrapper :: "'d types \<Rightarrow> 'd iface \<Rightarrow> 'd MetaValidator" where
  "NewValidatorWrapper T validator =
     (let v = \<lparr>Validator = validator\<rparr> in
      \<lparr>MetaValidator_DeepCopyObject = ValidatorWrapper_DeepCopyObject T v,
       MetaValidator_ValidateCreate = (\<lambda>obj req. snd (ValidatorWrapper_ValidateCreate T v obj req)),
       MetaValidator_ValidateUpdate =
         (\<lambda>obj old req. snd (ValidatorWrapper_ValidateUpdate T v obj old req)),
       MetaValidator_ValidateDelete = (\<lambda>obj req. snd (ValidatorWrapper_ValidateDelete T v obj req))\<rparr>)"

subsection \<open>validatingHandler\<close>

record 'd validatingHandler =
  validator :: "'d MetaValidator option"
  decoder :: "'d Decoder option"

text \<open>
  \<open>ValidatingWebhookFor\<close> builds the handler inside the webhook with the decoder
  field unset.
\<close>

definition ValidatingWebhookFor :: "'d MetaValidator option \<Rightarrow> 'd validatingHandler" where
  "ValidatingWebhookFor v = \<lparr>validator = v, decoder = None\<rparr>"

definition InjectDecoder ::
  "'d validatingHandler \<Rightarrow> 'd Decoder option \<Rightarrow> 'd validatingHandler \<times> go_error option" where
  "InjectDecoder h d = (h\<lparr>decoder := d\<rparr>, None)"

text \<open>
  The calls \<open>Handle\<close> makes, each with its arguments and with what it returned.
\<close>

datatype 'd call =
    Call_DeepCopyObject "panic + 'd iface"
  | Call_obj_DeepCopyObject "'d iface" "panic + 'd iface"
  | Call_Decode Request "'d iface" "panic + 'd decoded"
  | Call_DecodeRaw RawExtension "'d iface" "panic + 'd decoded"
  | Call_ValidateCreate "'d iface" AdmissionRequest "panic + go_error option"
  | Call_ValidateUpdate "'d iface" "'d iface" AdmissionRequest "panic + go_error option"
  | Call_ValidateDelete "'d iface" AdmissionRequest "panic + go_error option"

fun is_decode_call :: "'d call \<Rightarrow> bool" where
  "is_decode_call (Call_Decode req into r) = True"
| "is_decode_call (Call_DecodeRaw raw into r) = True"
| "is_decode_call c = False"

fun is_validation_call :: "'d call \<Rightarrow> bool" where
  "is_validation_call (Call_ValidateCreate obj req r) = True"
| "is_validation_call (Call_ValidateUpdate obj old req r) = True"
| "is_validation_call (Call_ValidateDelete obj req r) = True"
| "is_validation_call c = False"

text \<open>
  How one \<open>if\<close> block of \<open>Handle\<close> ends: with a \<open>return\<close>, with a panic, or by
  falling through to the next statement with the current \<open>obj\<close>.
\<close>

datatype 'd flow = Return Response | Raise panic | Next "'d iface"

text \<open>The block \<open>if req.Operation == v1beta1.Create\<close>.\<close>

definition Handle_Create ::
  "'d validatingHandler \<Rightarrow> 'd MetaValidator \<Rightarrow> Request \<Rightarrow> 'd iface \<Rightarrow> 'd call list \<times> 'd flow"
  where
  "Handle_Create h v req obj =
     (if Operation (AdmissionRequest req) = Create then
        (let r = Decoder_Decode (decoder h) req obj in
         case r of
           Inl p \<Rightarrow> ([Call_Decode req obj r], Raise p)
         | Inr (DecodeError err) \<Rightarrow>
             ([Call_Decode req obj r], Return (Errored StatusBadRequest err))
         | Inr (Decoded obj') \<Rightarrow>
             (let r' = MetaValidator_ValidateCreate v obj' (AdmissionRequest req);
                  calls = [Call_Decode req obj r,
                           Call_ValidateCreate obj' (AdmissionRequest req) r'] in
              case r' of
                Inl p \<Rightarrow> (calls, Raise p)
              | Inr (Some err) \<Rightarrow> (calls, Return (Denied (Error err)))
              | Inr None \<Rightarrow> (calls, Next obj')))
      else ([], Next obj))"

text \<open>The block \<open>if req.Operation == v1beta1.Update\<close>.\<close>

definition Handle_Update ::
  "'d types \<Rightarrow> 'd validatingHandler \<Rightarrow> 'd MetaValidator \<Rightarrow> Request \<Rightarrow> 'd iface
     \<Rightarrow> 'd call list \<times> 'd flow" where
  "Handle_Update T h v req obj =
     (if Operation (AdmissionRequest req) = Update then
        (let c = DeepCopyObject T obj in
         case c of
           Inl p \<Rightarrow> ([Call_obj_DeepCopyObject obj c], Raise p)
         | Inr oldObj \<Rightarrow>
             (let r = Decoder_DecodeRaw (decoder h) (Object (AdmissionRequest req)) obj;
                  calls1 = [Call_obj_DeepCopyObject obj c,
                            Call_DecodeRaw (Object (AdmissionRequest req)) obj r] in
              case r of
                Inl p \<Rightarrow> (calls1, Raise p)
              | Inr (DecodeError err) \<Rightarrow> (calls1, Return (Errored StatusBadRequest err))
              | Inr (Decoded obj') \<Rightarrow>
                  (let r2 = Decoder_DecodeRaw (decoder h)
                              (OldObject (AdmissionRequest req)) oldObj;
                       calls2 = calls1 @
                           [Call_DecodeRaw (OldObject (AdmissionRequest req)) oldObj r2] in
                   case r2 of
                     Inl p \<Rightarrow> (calls2, Raise p)
                   | Inr (DecodeError err) \<Rightarrow>
                       (calls2, Return (Errored StatusBadRequest err))
                   | Inr (Decoded oldObj') \<Rightarrow>
                       (let r' = MetaValidator_ValidateUpdate v obj' oldObj'
                                   (AdmissionRequest req);
                            calls3 = calls2 @
                              [Call_ValidateUpdate obj' oldObj' (AdmissionRequest req) r'] in
                        case r' of
                          Inl p \<Rightarrow> (calls3, Raise p)
                        | Inr (Some err) \<Rightarrow> (calls3, Return (Denied (Error err)))
                        | Inr None \<Rightarrow> (calls3, Next obj')))))
      else ([], Next obj))"

text \<open>The block \<open>if req.Operation == v1beta1.Delete\<close>.\<close>

definition Handle_Delete ::
  "'d validatingHandler \<Rightarrow> 'd MetaValidator \<Rightarrow> Request \<Rightarrow> 'd iface \<Rightarrow> 'd call list \<times> 'd flow"
  where
  "Handle_Delete h v req obj =
     (if Operation (AdmissionRequest req) = Delete then
        (let r = Decoder_DecodeRaw (decoder h) (OldObject (AdmissionRequest req)) obj in
         case r of
           Inl p \<Rightarrow> ([Call_DecodeRaw (OldObject (AdmissionRequest req)) obj r], Raise p)
         | Inr (DecodeError err) \<Rightarrow>
             ([Call_DecodeRaw (OldObject (AdmissionRequest req)) obj r],
              Return (Errored StatusBadRequest err))
         | Inr (Decoded obj') \<Rightarrow>
             (let r' = MetaValidator_ValidateDelete v obj' (AdmissionRequest req);
                  calls = [Call_DecodeRaw (OldObject (AdmissionRequest req)) obj r,
                           Call_ValidateDelete obj' (AdmissionRequest req) r'] in
              case r' of
                Inl p \<Rightarrow> (calls, Raise p)
              | Inr (Some err) \<Rightarrow> (calls, Return (Denied (Error err)))
              | Inr None \<Rightarrow> (calls, Next obj')))
      else ([], Next obj))"

text \<open>
  Statement sequencing: the next block runs only when the one before fell
  through, and its calls come after those already made.
\<close>

definition and_then ::
  "'d call list \<times> 'd flow \<Rightarrow> ('d iface \<Rightarrow> 'd call list \<times> 'd flow) \<Rightarrow> 'd call list \<times> 'd flow"
  where
  "and_then a f =
     (case snd a of
        Return resp \<Rightarrow> a
      | Raise p \<Rightarrow> a
      | Next obj \<Rightarrow> (fst a @ fst (f obj), snd (f obj)))"

text \<open>
  \<open>Handle\<close>: the nil check on the validator, \<open>obj := h.validator.DeepCopyObject()\<close>,
  the three blocks in the order of the source, and the final \<open>return Allowed("")\<close>.
  The result is the list of calls made and the panic or the response.
\<close>

definition Handle ::
  "'d types \<Rightarrow> 'd validatingHandler \<Rightarrow> Request \<Rightarrow> 'd call list \<times> (panic + Response)" where
  "Handle T h req =
     (case validator h of
        None \<Rightarrow> ([], Inl (PanicValue ''validator should never be nil''))
      | Some v \<Rightarrow>
          (let c = MetaValidator_DeepCopyObject v in
           case c of
             Inl p \<Rightarrow> ([Call_DeepCopyObject c], Inl p)
           | Inr obj \<Rightarrow>
               (let a = and_then (and_then (Handle_Create h v req obj)
                                    (Handle_Update T h v req))
                          (Handle_Delete h v req) in
                (Call_DeepCopyObject c # fst a,
                 case snd a of
                   Return resp \<Rightarrow> Inr resp
                 | Raise p \<Rightarrow> Inl p
                 | Next obj' \<Rightarrow> Inr (Allowed '''')))))"

text \<open>
  What a call returned when it panicked; used to say where a panic of \<open>Handle\<close>
  came from.
\<close>

fun panic_of_call :: "'d call \<Rightarrow> panic option" where
  "panic_of_call (Call_DeepCopyObject r) = (case r of Inl p \<Rightarrow> Some p | Inr y \<Rightarrow> None)"
| "panic_of_call (Call_obj_DeepCopyObject obj r) = (case r of Inl p \<Rightarrow> Some p | Inr y \<Rightarrow> None)"
| "panic_of_call (Call_Decode req into r) = (case r of Inl p \<Rightarrow> Some p | Inr y \<Rightarrow> None)"
| "panic_of_call (Call_DecodeRaw raw into r) = (case r of Inl p \<Rightarrow> Some p | Inr y \<Rightarrow> None)"
| "panic_of_call (Call_ValidateCreate obj req r) = (case r of Inl p \<Rightarrow> Some p | Inr y \<Rightarrow> None)"
| "panic_of_call (Call_ValidateUpdate obj old req r) =
     (case r of Inl p \<Rightarrow> Some p | Inr y \<Rightarrow> None)"
| "panic_of_call (Call_ValidateDelete obj req r) = (case r of Inl p \<Rightarrow> Some p | Inr y \<Rightarrow> None)"

subsection \<open>The contract between an adapter and its instances\<close>



text \<open>
  The instances an adapter produces: the result of its own \<open>DeepCopyObject\<close>, and
  deep copies of such instances.
\<close>

inductive adapter_instance :: "'d types \<Rightarrow> 'd ValidatorWrapper \<Rightarrow> 'd iface \<Rightarrow> bool"
  for T :: "'d types" and v :: "'d ValidatorWrapper" where
  fresh: "ValidatorWrapper_DeepCopyObject T v = Inr obj \<Longrightarrow> adapter_instance T v obj"
| copy: "adapter_instance T v obj \<Longrightarrow> DeepCopyObject T obj = Inr obj' \<Longrightarrow>
           adapter_instance T v obj'"

subsection \<open>A concrete program: a resource with a replica count\<close>

text \<open>
  The contents of an object are its replica count. The type Deployment
  implements \<open>Validator\<close>; no other type of \<open>example_types\<close> does.
\<close>

definition replicas_check :: "int \<Rightarrow> go_error option" where
  "replicas_check n = (if n < 0 then Some (GoError ''replicas must be >= 0'') else None)"

definition Deployment_methods :: "int Validator_methods" where
  "Deployment_methods =
     \<lparr>Validator_ValidateCreate = (\<lambda>n. Inr (replicas_check n)),
      Validator_ValidateUpdate =
        (\<lambda>n old. Inr (case old of
                         None \<Rightarrow> Some (GoError ''no previous state'')
                       | Some y \<Rightarrow>
                           if n < contents y then Some (GoError ''replicas must not decrease'')
                           else replicas_check n)),
      Validator_ValidateDelete =
        (\<lambda>n. Inr (if 0 < n then Some (GoError ''scale to zero before delete'') else None))\<rparr>"

definition example_types :: "int types" where
  "example_types tn =
     \<lparr>runtime_Object_DeepCopyObject = (\<lambda>n. Inr (Some (Obj tn n))),
      Validator_impl = (if tn = ''Deployment'' then Some Deployment_methods else None)\<rparr>"

text \<open>
  The same program with one more type, Legacy, which implements \<open>Validator\<close> but
  whose \<open>DeepCopyObject\<close> breaks the contract by returning a Pod.
\<close>

definition legacy_types :: "int types" where
  "legacy_types tn =
     (if tn = ''Legacy'' then
        \<lparr>runtime_Object_DeepCopyObject = (\<lambda>n. Inr (Some (Obj ''Pod'' n))),
         Validator_impl = Some Deployment_methods\<rparr>
      else example_types tn)"

text \<open>A decoder for payloads of the form \<open>replicas=n\<close>; anything else is malformed.\<close>

definition parse_replicas :: "RawExtension \<Rightarrow> int option" where
  "parse_replicas raw =
     map_of [(''replicas=0'', 0), (''replicas=3'', 3), (''replicas=5'', 5),
             (''replicas=-1'', - 1)] raw"

definition example_DecodeRaw :: "RawExtension \<Rightarrow> int iface \<Rightarrow> int decoded" where
  "example_DecodeRaw raw into =
     (case into of
        None \<Rightarrow> DecodeError (GoError ''nil target'')
      | Some x \<Rightarrow>
          (case parse_replicas raw of
             None \<Rightarrow> DecodeError (GoError ''malformed payload'')
           | Some n \<Rightarrow> Decoded (Some (Obj (dyn_type x) n))))"

definition example_Decoder :: "int Decoder" where
  "example_Decoder =
     \<lparr>Decode = (\<lambda>req. example_DecodeRaw (Object (AdmissionRequest req))),
      DecodeRaw = example_DecodeRaw\<rparr>"

definition example_wrapper :: "int ValidatorWrapper" where
  "example_wrapper = \<lparr>Validator = Some (Obj ''Deployment'' 0)\<rparr>"

definition example_validator :: "int MetaValidator" where
  "example_validator = NewValidatorWrapper example_types (Some (Obj ''Deployment'' 0))"

definition example_handler :: "int validatingHandler" where
  "example_handler =
     fst (InjectDecoder (ValidatingWebhookFor (Some example_validator)) (Some example_Decoder))"

definition legacy_handler :: "int validatingHandler" where
  "legacy_handler =
     fst (InjectDecoder
            (ValidatingWebhookFor
               (Some (NewValidatorWrapper legacy_types (Some (Obj ''Legacy'' 0)))))
            (Some example_Decoder))"

text \<open>Handlers as wired by mistake: no decoder injected, and no validator.\<close>

definition nil_decoder_handler :: "int validatingHandler" where
  "nil_decoder_handler = ValidatingWebhookFor (Some example_validator)"

definition nil_validator_handler :: "int validatingHandler" where
  "nil_validator_handler =
     fst (InjectDecoder (ValidatingWebhookFor None) (Some example_Decoder))"

definition example_request :: "Operation \<Rightarrow> RawExtension \<Rightarrow> RawExtension \<Rightarrow> Request" where
  "example_request op new old =
     \<lparr>AdmissionRequest =
        \<lparr>UID = ''uid-1'', Operation = op, UserInfo = ''alice'',
         Object = new, OldObject = old, DryRun = False\<rparr>\<rparr>"

definition create_valid :: Request where
  "create_valid = example_request Create ''replicas=3'' []"



definition update_shrink :: Request where
  "update_shrink = example_request Update ''replicas=3'' ''replicas=5''"


definition delete_scaled_down :: Request where
  "delete_scaled_down = example_request Delete ''{'' ''replicas=0''"

definition connect_request :: Request where
  "connect_request = example_request Connect [] []"

text \<open>
  The end of \<open>Handle\<close> as a function of how the blocks ended (the last case
  distinction of its definition).
\<close>

abbreviation finish :: "'d flow \<Rightarrow> panic + Response" where
  "finish fl \<equiv>
     (case fl of Return resp \<Rightarrow> Inr resp | Raise p \<Rightarrow> Inl p | Next obj' \<Rightarrow> Inr (Allowed ''''))"

section \<open>Properties of the handler and of the adapter\<close>

subsection \<open>Reducing \<open>Handle\<close> to the block its operation selects\<close>

lemma Operation_distinct [simp]:
  "Create \<noteq> Update" "Create \<noteq> Delete" "Update \<noteq> Delete"
  "Update \<noteq> Create" "Delete \<noteq> Create" "Delete \<noteq> Update"
  by (simp_all add: Create_def Update_def Delete_def)

lemma and_then_skip: "(\<And>obj. f obj = ([], Next obj)) \<Longrightarrow> and_then a f = a"
  by (cases a; cases "snd a") (simp_all add: and_then_def)

lemma and_then_Next: "and_then ([], Next obj) f = f obj"
  by (simp add: and_then_def)

lemma blocks_Create:
  "Operation (AdmissionRequest req) = Create \<Longrightarrow>
   and_then (and_then (Handle_Create h v req obj) (Handle_Update T h v req))
     (Handle_Delete h v req) = Handle_Create h v req obj"
  by (simp add: and_then_skip Handle_Update_def Handle_Delete_def)

lemma blocks_Update:
  "Operation (AdmissionRequest req) = Update \<Longrightarrow>
   and_then (and_then (Handle_Create h v req obj) (Handle_Update T h v req))
     (Handle_Delete h v req) = Handle_Update T h v req obj"
  by (simp add: and_then_skip and_then_Next Handle_Create_def Handle_Delete_def)

lemma blocks_Delete:
  "Operation (AdmissionRequest req) = Delete \<Longrightarrow>
   and_then (and_then (Handle_Create h v req obj) (Handle_Update T h v req))
     (Handle_Delete h v req) = Handle_Delete h v req obj"
  by (simp add: and_then_Next Handle_Create_def Handle_Update_def)

lemma blocks_other:
  "Operation (AdmissionRequest req) \<noteq> Create \<Longrightarrow>
   Operation (AdmissionRequest req) \<noteq> Update \<Longrightarrow>
   Operation (AdmissionRequest req) \<noteq> Delete \<Longrightarrow>
   and_then (and_then (Handle_Create h v req obj) (Handle_Update T h v req))
     (Handle_Delete h v req) = ([], Next obj)"
  by (simp add: and_then_Next Handle_Create_def Handle_Update_def Handle_Delete_def)

lemma Handle_nil_validator:
  "validator h = None \<Longrightarrow>
   Handle T h req = ([], Inl (PanicValue ''validator should never be nil''))"
  by (simp add: Handle_def)

lemma Handle_constructor_panics:
  "validator h = Some v \<Longrightarrow> MetaValidator_DeepCopyObject v = Inl p \<Longrightarrow>
   Handle T h req = ([Call_DeepCopyObject (Inl p)], Inl p)"
  by (simp add: Handle_def)

lemma Handle_is_Create:
  "validator h = Some v \<Longrightarrow> MetaValidator_DeepCopyObject v = Inr obj \<Longrightarrow>
   Operation (AdmissionRequest req) = Create \<Longrightarrow>
   Handle T h req = (Call_DeepCopyObject (Inr obj) # fst (Handle_Create h v req obj),
                     finish (snd (Handle_Create h v req obj)))"
  by (simp add: Handle_def blocks_Create Let_def)

lemma Handle_is_Update:
  "validator h = Some v \<Longrightarrow> MetaValidator_DeepCopyObject v = Inr obj \<Longrightarrow>
   Operation (AdmissionRequest req) = Update \<Longrightarrow>
   Handle T h req = (Call_DeepCopyObject (Inr obj) # fst (Handle_Update T h v req obj),
                     finish (snd (Handle_Update T h v req obj)))"
  by (simp add: Handle_def blocks_Update Let_def)

lemma Handle_is_Delete:
  "validator h = Some v \<Longrightarrow> MetaValidator_DeepCopyObject v = Inr obj \<Longrightarrow>
   Operation (AdmissionRequest req) = Delete \<Longrightarrow>
   Handle T h req = (Call_DeepCopyObject (Inr obj) # fst (Handle_Delete h v req obj),
                     finish (snd (Handle_Delete h v req obj)))"
  by (simp add: Handle_def blocks_Delete Let_def)

lemma Handle_is_other:
  "validator h = Some v \<Longrightarrow> MetaValidator_DeepCopyObject v = Inr obj \<Longrightarrow>
   Operation (AdmissionRequest req) \<noteq> Create \<Longrightarrow>
   Operation (AdmissionRequest req) \<noteq> Update \<Longrightarrow>
   Operation (AdmissionRequest req) \<noteq> Delete \<Longrightarrow>
   Handle T h req = ([Call_DeepCopyObject (Inr obj)], Inr (Allowed ''''))"
  by (simp add: Handle_def blocks_other)

text \<open>
  Every run of \<open>Handle\<close> is one of six: the validator is nil, its
  \<open>DeepCopyObject\<close> panics, or the operation selects the Create block, the Update
  block, the Delete block or none.
\<close>

lemma Handle_cases [case_names nil_validator constructor_panics Create Update Delete other]:
  obtains
    "validator h = None"
      "Handle T h req = ([], Inl (PanicValue ''validator should never be nil''))"
  | v p where "validator h = Some v" "MetaValidator_DeepCopyObject v = Inl p"
      "Handle T h req = ([Call_DeepCopyObject (Inl p)], Inl p)"
  | v obj where "validator h = Some v" "MetaValidator_DeepCopyObject v = Inr obj"
      "Operation (AdmissionRequest req) = Create"
      "Handle T h req = (Call_DeepCopyObject (Inr obj) # fst (Handle_Create h v req obj),
                         finish (snd (Handle_Create h v req obj)))"
  | v obj where "validator h = Some v" "MetaValidator_DeepCopyObject v = Inr obj"
      "Operation (AdmissionRequest req) = Update"
      "Handle T h req = (Call_DeepCopyObject (Inr obj) # fst (Handle_Update T h v req obj),
                         finish (snd (Handle_Update T h v req obj)))"
  | v obj where "validator h = Some v" "MetaValidator_DeepCopyObject v = Inr obj"
      "Operation (AdmissionRequest req) = Delete"
      "Handle T h req = (Call_DeepCopyObject (Inr obj) # fst (Handle_Delete h v req obj),
                         finish (snd (Handle_Delete h v req obj)))"
  | v obj where "validator h = Some v" "MetaValidator_DeepCopyObject v = Inr obj"
      "Operation (AdmissionRequest req) \<noteq> Create" "Operation (AdmissionRequest req) \<noteq> Update"
      "Operation (AdmissionRequest req) \<noteq> Delete"
      "Handle T h req = ([Call_DeepCopyObject (Inr obj)], Inr (Allowed ''''))"
proof (cases "validator h")
  case None
  then show ?thesis using that(1) Handle_nil_validator by blast
next
  case (Some v)
  show ?thesis
  proof (cases "MetaValidator_DeepCopyObject v")
    case (Inl p)
    then show ?thesis using that(2) Some Handle_constructor_panics by blast
  next
    case (Inr obj)
    consider "Operation (AdmissionRequest req) = Create"
      | "Operation (AdmissionRequest req) = Update"
      | "Operation (AdmissionRequest req) = Delete"
      | "Operation (AdmissionRequest req) \<noteq> Create" "Operation (AdmissionRequest req) \<noteq> Update"
        "Operation (AdmissionRequest req) \<noteq> Delete"
      by blast
    then show ?thesis
    proof cases
      case 1
      then show ?thesis using that(3) Some Inr Handle_is_Create by blast
    next
      case 2
      then show ?thesis using that(4) Some Inr Handle_is_Update by blast
    next
      case 3
      then show ?thesis using that(5) Some Inr Handle_is_Delete by blast
    next
      case 4
      then show ?thesis using that(6) Some Inr Handle_is_other by blast
    qed
  qed
qed

subsection \<open>What each block calls and how it ends\<close>

lemmas block_defs = Handle_Create_def Handle_Update_def Handle_Delete_def
  Decoder_Decode_def Decoder_DecodeRaw_def StatusBadRequest_def Let_def

lemmas block_splits = option.splits sum.splits decoded.splits if_splits




lemma Create_validation_result:
  assumes "Call_ValidateCreate o' a r \<in> set (fst (Handle_Create h v req obj))"
  shows "r = MetaValidator_ValidateCreate v o' a \<and> a = AdmissionRequest req \<and>
         snd (Handle_Create h v req obj) =
           (case r of Inl p \<Rightarrow> Raise p | Inr None \<Rightarrow> Next o'
            | Inr (Some e) \<Rightarrow> Return (Denied (Error e)))"
  using assms by (auto simp: block_defs split: block_splits)

lemma Update_validation_result:
  assumes "Call_ValidateUpdate o' old a r \<in> set (fst (Handle_Update T h v req obj))"
  shows "r = MetaValidator_ValidateUpdate v o' old a \<and> a = AdmissionRequest req \<and>
         snd (Handle_Update T h v req obj) =
           (case r of Inl p \<Rightarrow> Raise p | Inr None \<Rightarrow> Next o'
            | Inr (Some e) \<Rightarrow> Return (Denied (Error e)))"
  using assms by (auto simp: block_defs split: block_splits)

lemma Delete_validation_result:
  assumes "Call_ValidateDelete o' a r \<in> set (fst (Handle_Delete h v req obj))"
  shows "r = MetaValidator_ValidateDelete v o' a \<and> a = AdmissionRequest req \<and>
         snd (Handle_Delete h v req obj) =
           (case r of Inl p \<Rightarrow> Raise p | Inr None \<Rightarrow> Next o'
            | Inr (Some e) \<Rightarrow> Return (Denied (Error e)))"
  using assms by (auto simp: block_defs split: block_splits)

lemma block_call_kinds:
  "Call_ValidateUpdate o' old a r \<notin> set (fst (Handle_Create h v req obj))"
  "Call_ValidateDelete o' a r \<notin> set (fst (Handle_Create h v req obj))"
  "Call_ValidateCreate o' a r \<notin> set (fst (Handle_Update T h v req obj))"
  "Call_ValidateDelete o' a r \<notin> set (fst (Handle_Update T h v req obj))"
  "Call_ValidateCreate o' a r \<notin> set (fst (Handle_Delete h v req obj))"
  "Call_ValidateUpdate o' old a r \<notin> set (fst (Handle_Delete h v req obj))"
  by (auto simp: block_defs split: block_splits)

text \<open>
  Whatever a validation call returned decides the outcome of \<open>Handle\<close>: a panic
  propagates, an error denies, nil allows.
\<close>

lemma Handle_validation_result:
  assumes "Call_ValidateCreate o' a r \<in> set (fst (Handle T h req)) \<or>
           Call_ValidateUpdate o' old a r \<in> set (fst (Handle T h req)) \<or>
           Call_ValidateDelete o' a r \<in> set (fst (Handle T h req))"
  shows "snd (Handle T h req) =
           (case r of Inl p \<Rightarrow> Inl p | Inr None \<Rightarrow> Inr (Allowed '''')
            | Inr (Some e) \<Rightarrow> Inr (Denied (Error e)))"
proof (cases rule: Handle_cases [of h T req])
  case nil_validator
  with assms show ?thesis by simp
next
  case (constructor_panics v p)
  with assms show ?thesis by simp
next
  case (Create v obj)
  with assms Create_validation_result [of o' a r h v req obj] show ?thesis
    by (auto simp: block_call_kinds split: sum.splits option.splits)
next
  case (Update v obj)
  with assms Update_validation_result [of o' old a r T h v req obj] show ?thesis
    by (auto simp: block_call_kinds split: sum.splits option.splits)
next
  case (Delete v obj)
  with assms Delete_validation_result [of o' a r h v req obj] show ?thesis
    by (auto simp: block_call_kinds split: sum.splits option.splits)
next
  case (other v obj)
  with assms show ?thesis by simp
qed

lemma Update_validation_args:
  assumes "Call_ValidateUpdate new old a r \<in> set (fst (Handle_Update T h v req obj))"
  shows "\<exists>d oldObj. Operation (AdmissionRequest req) = Update \<and> decoder h = Some d \<and>
           DeepCopyObject T obj = Inr oldObj \<and>
           DecodeRaw d (Object (AdmissionRequest req)) obj = Decoded new \<and>
           DecodeRaw d (OldObject (AdmissionRequest req)) oldObj = Decoded old \<and>
           a = AdmissionRequest req \<and> r = MetaValidator_ValidateUpdate v new old a \<and>
           fst (Handle_Update T h v req obj) =
             [Call_obj_DeepCopyObject obj (Inr oldObj),
              Call_DecodeRaw (Object (AdmissionRequest req)) obj (Inr (Decoded new)),
              Call_DecodeRaw (OldObject (AdmissionRequest req)) oldObj (Inr (Decoded old)),
              Call_ValidateUpdate new old a r]"
  using assms by (auto simp: block_defs split: block_splits)

lemma Handle_Delete_calls:
  assumes "Operation (AdmissionRequest req) = Delete"
  shows "fst (Handle_Delete h v req obj) =
           Call_DecodeRaw (OldObject (AdmissionRequest req)) obj
             (Decoder_DecodeRaw (decoder h) (OldObject (AdmissionRequest req)) obj) #
           (case Decoder_DecodeRaw (decoder h) (OldObject (AdmissionRequest req)) obj of
              Inr (Decoded obj') \<Rightarrow>
                [Call_ValidateDelete obj' (AdmissionRequest req)
                   (MetaValidator_ValidateDelete v obj' (AdmissionRequest req))]
            | _ \<Rightarrow> [])"
  using assms
  by (simp add: Handle_Delete_def Let_def split: sum.splits decoded.splits option.splits)

lemma block_panic_from_call:
  "snd (Handle_Create h v req obj) = Raise p \<Longrightarrow>
     fst (Handle_Create h v req obj) \<noteq> [] \<and>
     panic_of_call (last (fst (Handle_Create h v req obj))) = Some p"
  "snd (Handle_Update T h v req obj) = Raise p \<Longrightarrow>
     fst (Handle_Update T h v req obj) \<noteq> [] \<and>
     panic_of_call (last (fst (Handle_Update T h v req obj))) = Some p"
  "snd (Handle_Delete h v req obj) = Raise p \<Longrightarrow>
     fst (Handle_Delete h v req obj) \<noteq> [] \<and>
     panic_of_call (last (fst (Handle_Delete h v req obj))) = Some p"
  by (auto simp: block_defs split: block_splits)

lemma finish_Inl: "finish fl = Inl p \<longleftrightarrow> fl = Raise p"
  by (cases fl) auto

subsection \<open>The adapter's type assertion\<close>

lemma assert_Validator_fails:
  "\<not> implements_Validator T obj \<Longrightarrow>
   assert_Validator T obj = Inl (TypeAssertionError (map_option dyn_type obj))"
  by (cases obj) (auto simp: implements_Validator_def assert_Validator_def)


lemma NewValidatorWrapper_methods:
  "MetaValidator_DeepCopyObject (NewValidatorWrapper T val) =
     ValidatorWrapper_DeepCopyObject T \<lparr>Validator = val\<rparr>"
  "MetaValidator_ValidateCreate (NewValidatorWrapper T val) obj req =
     snd (ValidatorWrapper_ValidateCreate T \<lparr>Validator = val\<rparr> obj req)"
  "MetaValidator_ValidateUpdate (NewValidatorWrapper T val) obj old req =
     snd (ValidatorWrapper_ValidateUpdate T \<lparr>Validator = val\<rparr> obj old req)"
  "MetaValidator_ValidateDelete (NewValidatorWrapper T val) obj req =
     snd (ValidatorWrapper_ValidateDelete T \<lparr>Validator = val\<rparr> obj req)"
  by (simp_all add: NewValidatorWrapper_def Let_def)

subsection \<open>Runs of the concrete program\<close>

lemmas example_defs =
  example_handler_def nil_decoder_handler_def
  example_validator_def example_wrapper_def example_Decoder_def example_DecodeRaw_def
  parse_replicas_def example_types_def Deployment_methods_def
  replicas_check_def example_request_def create_valid_def
  update_shrink_def delete_scaled_down_def
  connect_request_def InjectDecoder_def ValidatingWebhookFor_def NewValidatorWrapper_def
  ValidatorWrapper_DeepCopyObject_def ValidatorWrapper_ValidateCreate_def
  ValidatorWrapper_ValidateUpdate_def ValidatorWrapper_ValidateDelete_def
  assert_Validator_def DeepCopyObject_def Create_def Update_def Delete_def Connect_def

lemmas Handle_defs = Handle_def and_then_def block_defs

lemma run_create_valid:
  "Handle example_types example_handler create_valid =
     ([Call_DeepCopyObject (Inr (Some (Obj ''Deployment'' 0))),
       Call_Decode create_valid (Some (Obj ''Deployment'' 0))
         (Inr (Decoded (Some (Obj ''Deployment'' 3)))),
       Call_ValidateCreate (Some (Obj ''Deployment'' 3)) (AdmissionRequest create_valid)
         (Inr None)],
      Inr (Allowed ''''))"
  by (simp add: Handle_defs example_defs)



lemma run_update_shrink:
  "Handle example_types example_handler update_shrink =
     ([Call_DeepCopyObject (Inr (Some (Obj ''Deployment'' 0))),
       Call_obj_DeepCopyObject (Some (Obj ''Deployment'' 0)) (Inr (Some (Obj ''Deployment'' 0))),
       Call_DecodeRaw ''replicas=3'' (Some (Obj ''Deployment'' 0))
         (Inr (Decoded (Some (Obj ''Deployment'' 3)))),
       Call_DecodeRaw ''replicas=5'' (Some (Obj ''Deployment'' 0))
         (Inr (Decoded (Some (Obj ''Deployment'' 5)))),
       Call_ValidateUpdate (Some (Obj ''Deployment'' 3)) (Some (Obj ''Deployment'' 5))
         (AdmissionRequest update_shrink)
         (Inr (Some (GoError ''replicas must not decrease'')))],
      Inr (Denied ''replicas must not decrease''))"
  by (simp add: Handle_defs example_defs)


lemma run_delete_scaled_down:
  "Handle example_types example_handler delete_scaled_down =
     ([Call_DeepCopyObject (Inr (Some (Obj ''Deployment'' 0))),
       Call_DecodeRaw ''replicas=0'' (Some (Obj ''Deployment'' 0))
         (Inr (Decoded (Some (Obj ''Deployment'' 0)))),
       Call_ValidateDelete (Some (Obj ''Deployment'' 0)) (AdmissionRequest delete_scaled_down)
         (Inr None)],
      Inr (Allowed ''''))"
  by (simp add: Handle_defs example_defs)

lemma run_legacy_create:
  "Handle legacy_types legacy_handler create_valid =
     ([Call_DeepCopyObject (Inr (Some (Obj ''Pod'' 0))),
       Call_Decode create_valid (Some (Obj ''Pod'' 0)) (Inr (Decoded (Some (Obj ''Pod'' 3)))),
       Call_ValidateCreate (Some (Obj ''Pod'' 3)) (AdmissionRequest create_valid)
         (Inl (TypeAssertionError (Some ''Pod'')))],
      Inl (TypeAssertionError (Some ''Pod'')))"
  by (simp add: Handle_defs example_defs legacy_handler_def legacy_types_def)

lemma run_nil_decoder_create:
  "Handle example_types nil_decoder_handler create_valid =
     ([Call_DeepCopyObject (Inr (Some (Obj ''Deployment'' 0))),
       Call_Decode create_valid (Some (Obj ''Deployment'' 0)) (Inl NilPointerDereference)],
      Inl NilPointerDereference)"
  by (simp add: Handle_defs example_defs)

lemma example_handler_fields:
  "validator example_handler = Some example_validator"
  "decoder example_handler = Some example_Decoder"
  "validator nil_decoder_handler = Some example_validator"
  "decoder nil_decoder_handler = None"
  by (simp_all add: example_handler_def nil_decoder_handler_def InjectDecoder_def
      ValidatingWebhookFor_def)

lemma example_validator_DeepCopyObject:
  "MetaValidator_DeepCopyObject example_validator = Inr (Some (Obj ''Deployment'' 0))"
  by (simp add: example_defs)

lemma example_Operations:
  "Operation (AdmissionRequest create_valid) = Create"
  "Operation (AdmissionRequest update_shrink) = Update"
  "Operation (AdmissionRequest delete_scaled_down) = Delete"
  "Operation (AdmissionRequest connect_request) \<noteq> Create"
  "Operation (AdmissionRequest connect_request) \<noteq> Update"
  "Operation (AdmissionRequest connect_request) \<noteq> Delete"
  by (simp_all add: example_defs)

section \<open>The claims\<close>

subsection \<open>C1: an instance of the wrong type\<close>

text \<open>
  C1 says that the adapter, called with an instance whose concrete type is not
  the wrapped capability's, yields an explicit typed error that the handler
  surfaces as an Errored verdict. The code makes the unchecked assertion
  \<open>obj.(Validator)\<close> instead. At a Pod passed to an adapter around a Deployment
  the call panics, no error value is returned, and a handler that reaches such a
  call ends in the panic, not in a response.
\<close>

theorem type_mismatch_counterexample:
  "Validator example_wrapper = Some (Obj ''Deployment'' 0) \<and>
   ValidatorWrapper_ValidateCreate example_types example_wrapper (Some (Obj ''Pod'' 3))
       (AdmissionRequest create_valid) =
     ([], Inl (TypeAssertionError (Some ''Pod''))) \<and>
   ValidatorWrapper_ValidateUpdate example_types example_wrapper (Some (Obj ''Pod'' 3))
       (Some (Obj ''Pod'' 5)) (AdmissionRequest update_shrink) =
     ([], Inl (TypeAssertionError (Some ''Pod''))) \<and>
   ValidatorWrapper_ValidateDelete example_types example_wrapper (Some (Obj ''Pod'' 3))
       (AdmissionRequest delete_scaled_down) =
     ([], Inl (TypeAssertionError (Some ''Pod''))) \<and>
   snd (Handle legacy_types legacy_handler create_valid) =
     Inl (TypeAssertionError (Some ''Pod''))"
  by (simp add: run_legacy_create) (simp add: example_defs)

text \<open>
  C1, amended: for every call to the adapter's validate-on-create,
  validate-on-update or validate-on-delete with an instance that is nil or whose
  concrete type does not implement the \<open>Validator\<close> interface, the outcome is a
  type-assertion panic raised before any method of the capability is invoked;
  no error value is returned, and a handler configured with the adapter that
  makes such a call ends in that panic instead of returning a verdict.
\<close>

theorem type_mismatch_panics:
  assumes "\<not> implements_Validator T obj"
  shows "ValidatorWrapper_ValidateCreate T w obj req =
           ([], Inl (TypeAssertionError (map_option dyn_type obj))) \<and>
         ValidatorWrapper_ValidateUpdate T w obj old req =
           ([], Inl (TypeAssertionError (map_option dyn_type obj))) \<and>
         ValidatorWrapper_ValidateDelete T w obj req =
           ([], Inl (TypeAssertionError (map_option dyn_type obj))) \<and>
         (validator h = Some (NewValidatorWrapper T val) \<and>
          (Call_ValidateCreate obj a r \<in> set (fst (Handle T h rq)) \<or>
           Call_ValidateUpdate obj old' a r \<in> set (fst (Handle T h rq)) \<or>
           Call_ValidateDelete obj a r \<in> set (fst (Handle T h rq))) \<longrightarrow>
          snd (Handle T h rq) = Inl (TypeAssertionError (map_option dyn_type obj)))"
proof -
  note f = assert_Validator_fails [OF assms]
  have adapter: "ValidatorWrapper_ValidateCreate T w' obj req' =
           ([], Inl (TypeAssertionError (map_option dyn_type obj)))"
      "ValidatorWrapper_ValidateUpdate T w' obj old'' req' =
           ([], Inl (TypeAssertionError (map_option dyn_type obj)))"
      "ValidatorWrapper_ValidateDelete T w' obj req' =
           ([], Inl (TypeAssertionError (map_option dyn_type obj)))" for w' req' old''
    by (simp_all add: f ValidatorWrapper_ValidateCreate_def ValidatorWrapper_ValidateUpdate_def
        ValidatorWrapper_ValidateDelete_def)
  have "snd (Handle T h rq) = Inl (TypeAssertionError (map_option dyn_type obj))"
    if v: "validator h = Some (NewValidatorWrapper T val)"
      and c: "Call_ValidateCreate obj a r \<in> set (fst (Handle T h rq)) \<or>
           Call_ValidateUpdate obj old' a r \<in> set (fst (Handle T h rq)) \<or>
           Call_ValidateDelete obj a r \<in> set (fst (Handle T h rq))"
  proof -
    have r: "r = Inl (TypeAssertionError (map_option dyn_type obj))"
    proof (cases rule: Handle_cases [of h T rq])
      case nil_validator
      with c show ?thesis by simp
    next
      case (constructor_panics v p)
      with c show ?thesis by simp
    next
      case (Create v' obj0)
      with c v Create_validation_result [of obj a r h v' rq obj0] show ?thesis
        by (auto simp: block_call_kinds NewValidatorWrapper_methods adapter)
    next
      case (Update v' obj0)
      with c v Update_validation_result [of obj old' a r T h v' rq obj0] show ?thesis
        by (auto simp: block_call_kinds NewValidatorWrapper_methods adapter)
    next
      case (Delete v' obj0)
      with c v Delete_validation_result [of obj a r h v' rq obj0] show ?thesis
        by (auto simp: block_call_kinds NewValidatorWrapper_methods adapter)
    next
      case (other v obj)
      with c show ?thesis by simp
    qed
    from Handle_validation_result [OF c] r show ?thesis by simp
  qed
  with adapter show ?thesis by blast
qed

theorem type_mismatch_panics_witness:
  "\<not> implements_Validator legacy_types (Some (Obj ''Pod'' 3)) \<and>
   validator legacy_handler =
     Some (NewValidatorWrapper legacy_types (Some (Obj ''Legacy'' 0))) \<and>
   Call_ValidateCreate (Some (Obj ''Pod'' 3)) (AdmissionRequest create_valid)
       (Inl (TypeAssertionError (Some ''Pod'')))
     \<in> set (fst (Handle legacy_types legacy_handler create_valid)) \<and>
   ValidatorWrapper_ValidateCreate legacy_types example_wrapper (Some (Obj ''Pod'' 3))
       (AdmissionRequest create_valid) =
     ([], Inl (TypeAssertionError (Some ''Pod''))) \<and>
   snd (Handle legacy_types legacy_handler create_valid) =
     Inl (TypeAssertionError (Some ''Pod''))"
proof -
  have h: "\<not> implements_Validator legacy_types (Some (Obj ''Pod'' 3))"
    by (simp add: implements_Validator_def legacy_types_def example_types_def)
  have v: "validator legacy_handler =
      Some (NewValidatorWrapper legacy_types (Some (Obj ''Legacy'' 0)))"
    by (simp add: legacy_handler_def InjectDecoder_def ValidatingWebhookFor_def)
  have c: "Call_ValidateCreate (Some (Obj ''Pod'' 3)) (AdmissionRequest create_valid)
       (Inl (TypeAssertionError (Some ''Pod'')))
     \<in> set (fst (Handle legacy_types legacy_handler create_valid))"
    by (simp add: run_legacy_create)
  from type_mismatch_panics [OF h, where w = example_wrapper
      and req = "AdmissionRequest create_valid" and h = legacy_handler
      and val = "Some (Obj ''Legacy'' 0)" and a = "AdmissionRequest create_valid"
      and r = "Inl (TypeAssertionError (Some ''Pod''))" and rq = create_valid]
    h v c
  show ?thesis by simp
qed

subsection \<open>C2: a decode that fails\<close>



subsection \<open>C3: a validator that rejects\<close>



subsection \<open>C4: a Create request that is accepted\<close>

text \<open>
  C4: for every Create request whose payload decodes successfully and whose
  validator's validate-on-create returns no error, the handler's verdict is
  Allowed with an empty reason (and it made exactly the three calls listed).
\<close>

theorem Create_accepted_Allowed:
  assumes "Operation (AdmissionRequest req) = Create"
    and "validator h = Some v" and "decoder h = Some d"
    and "MetaValidator_DeepCopyObject v = Inr obj"
    and "Decode d req obj = Decoded obj'"
    and "MetaValidator_ValidateCreate v obj' (AdmissionRequest req) = Inr None"
  shows "Handle T h req =
           ([Call_DeepCopyObject (Inr obj),
             Call_Decode req obj (Inr (Decoded obj')),
             Call_ValidateCreate obj' (AdmissionRequest req) (Inr None)],
            Inr (Allowed ''''))"
  using assms by (simp add: Handle_is_Create [of h v obj req T] block_defs)

theorem Create_accepted_Allowed_witness:
  "Operation (AdmissionRequest create_valid) = Create \<and>
   validator example_handler = Some example_validator \<and>
   decoder example_handler = Some example_Decoder \<and>
   MetaValidator_DeepCopyObject example_validator = Inr (Some (Obj ''Deployment'' 0)) \<and>
   Decode example_Decoder create_valid (Some (Obj ''Deployment'' 0)) =
     Decoded (Some (Obj ''Deployment'' 3)) \<and>
   MetaValidator_ValidateCreate example_validator (Some (Obj ''Deployment'' 3))
     (AdmissionRequest create_valid) = Inr None \<and>
   snd (Handle example_types example_handler create_valid) = Inr (Allowed '''')"
proof -
  have h1: "Operation (AdmissionRequest create_valid) = Create"
    by (rule example_Operations)
  have h2: "validator example_handler = Some example_validator"
    and h3: "decoder example_handler = Some example_Decoder"
    by (rule example_handler_fields)+
  have h4: "MetaValidator_DeepCopyObject example_validator = Inr (Some (Obj ''Deployment'' 0))"
    by (rule example_validator_DeepCopyObject)
  have h5: "Decode example_Decoder create_valid (Some (Obj ''Deployment'' 0)) =
      Decoded (Some (Obj ''Deployment'' 3))"
    by (simp add: example_defs)
  have h6: "MetaValidator_ValidateCreate example_validator (Some (Obj ''Deployment'' 3))
      (AdmissionRequest create_valid) = Inr None"
    by (simp add: example_defs)
  from Create_accepted_Allowed [OF h1 h2 h3 h4 h5 h6, of example_types] h1 h2 h3 h4 h5 h6
  show ?thesis by simp
qed

subsection \<open>C5: what validate-on-update receives\<close>

text \<open>
  C5: whenever the handler calls validate-on-update, the request is an Update,
  the first argument is the value decoded from the primary object bytes into
  the fresh instance, the second is the value decoded from the previous-object
  bytes into a deep copy of that fresh instance, and the empty-instance
  constructor was called once only: the calls are exactly the five listed.
\<close>

theorem Update_validates_new_against_old:
  assumes "Call_ValidateUpdate new old a r \<in> set (fst (Handle T h req))"
  shows "\<exists>v d obj oldObj.
           Operation (AdmissionRequest req) = Update \<and>
           validator h = Some v \<and> decoder h = Some d \<and>
           MetaValidator_DeepCopyObject v = Inr obj \<and>
           DeepCopyObject T obj = Inr oldObj \<and>
           DecodeRaw d (Object (AdmissionRequest req)) obj = Decoded new \<and>
           DecodeRaw d (OldObject (AdmissionRequest req)) oldObj = Decoded old \<and>
           a = AdmissionRequest req \<and> r = MetaValidator_ValidateUpdate v new old a \<and>
           fst (Handle T h req) =
             [Call_DeepCopyObject (Inr obj),
              Call_obj_DeepCopyObject obj (Inr oldObj),
              Call_DecodeRaw (Object (AdmissionRequest req)) obj (Inr (Decoded new)),
              Call_DecodeRaw (OldObject (AdmissionRequest req)) oldObj (Inr (Decoded old)),
              Call_ValidateUpdate new old a r]"
proof (cases rule: Handle_cases [of h T req])
  case nil_validator
  with assms show ?thesis by simp
next
  case (constructor_panics v p)
  with assms show ?thesis by simp
next
  case (Create v obj)
  with assms show ?thesis by (simp add: block_call_kinds)
next
  case (Update v obj)
  with assms have "Call_ValidateUpdate new old a r \<in> set (fst (Handle_Update T h v req obj))"
    by simp
  from Update_validation_args [OF this] Update show ?thesis by auto
next
  case (Delete v obj)
  with assms show ?thesis by (simp add: block_call_kinds)
next
  case (other v obj)
  with assms show ?thesis by simp
qed

theorem Update_validates_new_against_old_witness:
  "Call_ValidateUpdate (Some (Obj ''Deployment'' 3)) (Some (Obj ''Deployment'' 5))
       (AdmissionRequest update_shrink) (Inr (Some (GoError ''replicas must not decrease'')))
     \<in> set (fst (Handle example_types example_handler update_shrink)) \<and>
   Object (AdmissionRequest update_shrink) = ''replicas=3'' \<and>
   OldObject (AdmissionRequest update_shrink) = ''replicas=5'' \<and>
   (\<exists>obj oldObj.
      DeepCopyObject example_types obj = Inr oldObj \<and>
      DecodeRaw example_Decoder ''replicas=3'' obj = Decoded (Some (Obj ''Deployment'' 3)) \<and>
      DecodeRaw example_Decoder ''replicas=5'' oldObj = Decoded (Some (Obj ''Deployment'' 5)))"
proof -
  have h: "Call_ValidateUpdate (Some (Obj ''Deployment'' 3)) (Some (Obj ''Deployment'' 5))
       (AdmissionRequest update_shrink) (Inr (Some (GoError ''replicas must not decrease'')))
     \<in> set (fst (Handle example_types example_handler update_shrink))"
    by (simp add: run_update_shrink)
  have o: "Object (AdmissionRequest update_shrink) = ''replicas=3''"
    "OldObject (AdmissionRequest update_shrink) = ''replicas=5''"
    by (simp_all add: update_shrink_def example_request_def)
  from Update_validates_new_against_old [OF h]
  obtain d obj oldObj where "decoder example_handler = Some d"
    "DeepCopyObject example_types obj = Inr oldObj"
    "DecodeRaw d (Object (AdmissionRequest update_shrink)) obj =
       Decoded (Some (Obj ''Deployment'' 3))"
    "DecodeRaw d (OldObject (AdmissionRequest update_shrink)) oldObj =
       Decoded (Some (Obj ''Deployment'' 5))"
    by blast
  with o example_handler_fields(2) h show ?thesis by auto
qed

subsection \<open>C6: what a Delete request decodes\<close>

text \<open>
  C6: for every Delete request (handled with a validator whose empty-instance
  constructor returns), the handler makes one decode, of the previous-object
  bytes into the fresh and only instance, and when it succeeds passes the
  decoded instance to validate-on-delete; the primary object bytes are not
  decoded: replacing them by any bytes \<open>b\<close> leaves the decode calls unchanged.
\<close>

theorem Delete_decodes_OldObject_only:
  assumes "Operation (AdmissionRequest req) = Delete"
    and "validator h = Some v"
    and "MetaValidator_DeepCopyObject v = Inr obj"
  shows "fst (Handle T h req) =
           [Call_DeepCopyObject (Inr obj),
            Call_DecodeRaw (OldObject (AdmissionRequest req)) obj
              (Decoder_DecodeRaw (decoder h) (OldObject (AdmissionRequest req)) obj)] @
           (case Decoder_DecodeRaw (decoder h) (OldObject (AdmissionRequest req)) obj of
              Inr (Decoded obj') \<Rightarrow>
                [Call_ValidateDelete obj' (AdmissionRequest req)
                   (MetaValidator_ValidateDelete v obj' (AdmissionRequest req))]
            | _ \<Rightarrow> []) \<and>
         filter is_decode_call
             (fst (Handle T h (req\<lparr>AdmissionRequest := (AdmissionRequest req)\<lparr>Object := b\<rparr>\<rparr>))) =
           filter is_decode_call (fst (Handle T h req))"
proof -
  let ?req' = "req\<lparr>AdmissionRequest := (AdmissionRequest req)\<lparr>Object := b\<rparr>\<rparr>"
  have op': "Operation (AdmissionRequest ?req') = Delete" using assms(1) by simp
  have old': "OldObject (AdmissionRequest ?req') = OldObject (AdmissionRequest req)" by simp
  have t: "fst (Handle T h req) =
             Call_DeepCopyObject (Inr obj) # fst (Handle_Delete h v req obj)"
    using Handle_is_Delete [OF assms(2,3,1), of T] by simp
  have t': "fst (Handle T h ?req') =
             Call_DeepCopyObject (Inr obj) # fst (Handle_Delete h v ?req' obj)"
    using Handle_is_Delete [OF assms(2,3) op', of T] by simp
  show ?thesis
    unfolding t t' Handle_Delete_calls [OF assms(1)] Handle_Delete_calls [OF op'] old'
    by (simp split: sum.splits decoded.splits)
qed

theorem Delete_decodes_OldObject_only_witness:
  "Operation (AdmissionRequest delete_scaled_down) = Delete \<and>
   validator example_handler = Some example_validator \<and>
   MetaValidator_DeepCopyObject example_validator = Inr (Some (Obj ''Deployment'' 0)) \<and>
   OldObject (AdmissionRequest delete_scaled_down) = ''replicas=0'' \<and>
   fst (Handle example_types example_handler delete_scaled_down) =
     [Call_DeepCopyObject (Inr (Some (Obj ''Deployment'' 0))),
      Call_DecodeRaw ''replicas=0'' (Some (Obj ''Deployment'' 0))
        (Inr (Decoded (Some (Obj ''Deployment'' 0)))),
      Call_ValidateDelete (Some (Obj ''Deployment'' 0)) (AdmissionRequest delete_scaled_down)
        (Inr None)] \<and>
   filter is_decode_call
     (fst (Handle example_types example_handler
        (delete_scaled_down\<lparr>AdmissionRequest :=
           (AdmissionRequest delete_scaled_down)\<lparr>Object := ''replicas=5''\<rparr>\<rparr>))) =
     [Call_DecodeRaw ''replicas=0'' (Some (Obj ''Deployment'' 0))
        (Inr (Decoded (Some (Obj ''Deployment'' 0))))]"
proof -
  have h1: "Operation (AdmissionRequest delete_scaled_down) = Delete"
    by (rule example_Operations)
  have h2: "validator example_handler = Some example_validator"
    by (rule example_handler_fields)
  have h3: "MetaValidator_DeepCopyObject example_validator = Inr (Some (Obj ''Deployment'' 0))"
    by (rule example_validator_DeepCopyObject)
  have o: "OldObject (AdmissionRequest delete_scaled_down) = ''replicas=0''"
    by (simp add: delete_scaled_down_def example_request_def)
  have d: "Decoder_DecodeRaw (decoder example_handler) ''replicas=0''
      (Some (Obj ''Deployment'' 0)) = Inr (Decoded (Some (Obj ''Deployment'' 0)))"
    by (simp add: example_handler_fields Decoder_DecodeRaw_def example_Decoder_def
        example_DecodeRaw_def parse_replicas_def)
  have m: "MetaValidator_ValidateDelete example_validator (Some (Obj ''Deployment'' 0))
      (AdmissionRequest delete_scaled_down) = Inr None"
    by (simp add: example_defs)
  from Delete_decodes_OldObject_only [OF h1 h2 h3, of example_types "''replicas=5''"]
    h1 h2 h3 o d m
  show ?thesis by simp
qed

subsection \<open>C7: any other operation\<close>

text \<open>
  C7: for every admission request whose operation is none of Create, Update and
  Delete, the handler makes no decode and no validation call, the only response
  it can return is Allowed with an empty reason, and it does return it whenever
  the validator is not nil and its empty-instance constructor returns.
\<close>

theorem other_Operation_Allowed:
  assumes "Operation (AdmissionRequest req) \<noteq> Create"
    and "Operation (AdmissionRequest req) \<noteq> Update"
    and "Operation (AdmissionRequest req) \<noteq> Delete"
  shows "filter is_decode_call (fst (Handle T h req)) = [] \<and>
         filter is_validation_call (fst (Handle T h req)) = [] \<and>
         (\<forall>resp. snd (Handle T h req) = Inr resp \<longrightarrow> resp = Allowed '''') \<and>
         (\<forall>v obj. validator h = Some v \<and> MetaValidator_DeepCopyObject v = Inr obj \<longrightarrow>
            Handle T h req = ([Call_DeepCopyObject (Inr obj)], Inr (Allowed '''')))"
proof (cases rule: Handle_cases [of h T req])
  case nil_validator
  then show ?thesis by simp
next
  case (constructor_panics v p)
  then show ?thesis by simp
next
  case (Create v obj)
  with assms show ?thesis by simp
next
  case (Update v obj)
  with assms show ?thesis by simp
next
  case (Delete v obj)
  with assms show ?thesis by simp
next
  case (other v obj)
  then show ?thesis by simp
qed

theorem other_Operation_Allowed_witness:
  "Operation (AdmissionRequest connect_request) \<noteq> Create \<and>
   Operation (AdmissionRequest connect_request) \<noteq> Update \<and>
   Operation (AdmissionRequest connect_request) \<noteq> Delete \<and>
   validator example_handler = Some example_validator \<and>
   MetaValidator_DeepCopyObject example_validator = Inr (Some (Obj ''Deployment'' 0)) \<and>
   Handle example_types example_handler connect_request =
     ([Call_DeepCopyObject (Inr (Some (Obj ''Deployment'' 0)))], Inr (Allowed ''''))"
proof -
  have h1: "Operation (AdmissionRequest connect_request) \<noteq> Create"
    and h2: "Operation (AdmissionRequest connect_request) \<noteq> Update"
    and h3: "Operation (AdmissionRequest connect_request) \<noteq> Delete"
    by (rule example_Operations)+
  have v: "validator example_handler = Some example_validator"
    by (rule example_handler_fields)
  have c: "MetaValidator_DeepCopyObject example_validator = Inr (Some (Obj ''Deployment'' 0))"
    by (rule example_validator_DeepCopyObject)
  from other_Operation_Allowed [OF h1 h2 h3, of example_types example_handler] h1 h2 h3 v c
  show ?thesis by blast
qed

subsection \<open>C8: the adapter delegates\<close>



subsection \<open>C9: a nil validator\<close>

text \<open>
  C9: if the handler's validator is nil, \<open>Handle\<close> panics with its own message
  before any call (no decode, no validation), so it returns no verdict at all;
  with a validator that is not nil, the first thing it does is call the
  empty-instance constructor, and any panic it ends in is one that its last
  call raised, never the one of the nil check.
\<close>

theorem nil_validator_aborts:
  "(validator h = None \<longrightarrow>
      Handle T h req = ([], Inl (PanicValue ''validator should never be nil''))) \<and>
   (\<forall>v. validator h = Some v \<longrightarrow>
      fst (Handle T h req) \<noteq> [] \<and>
      hd (fst (Handle T h req)) = Call_DeepCopyObject (MetaValidator_DeepCopyObject v) \<and>
      (\<forall>p. snd (Handle T h req) = Inl p \<longrightarrow>
         panic_of_call (last (fst (Handle T h req))) = Some p))"
proof (cases rule: Handle_cases [of h T req])
  case nil_validator
  then show ?thesis by simp
next
  case (constructor_panics v p)
  then show ?thesis by simp
next
  case (Create v obj)
  then show ?thesis using block_panic_from_call(1) [of h v req obj]
    by (auto simp: finish_Inl)
next
  case (Update v obj)
  then show ?thesis using block_panic_from_call(2) [of T h v req obj]
    by (auto simp: finish_Inl)
next
  case (Delete v obj)
  then show ?thesis using block_panic_from_call(3) [of h v req obj]
    by (auto simp: finish_Inl)
next
  case (other v obj)
  then show ?thesis by simp
qed

theorem nil_validator_aborts_witness:
  "validator nil_validator_handler = None \<and>
   Handle example_types nil_validator_handler create_valid =
     ([], Inl (PanicValue ''validator should never be nil'')) \<and>
   validator nil_decoder_handler = Some example_validator \<and>
   hd (fst (Handle example_types nil_decoder_handler create_valid)) =
     Call_DeepCopyObject (Inr (Some (Obj ''Deployment'' 0))) \<and>
   snd (Handle example_types nil_decoder_handler create_valid) = Inl NilPointerDereference \<and>
   panic_of_call (last (fst (Handle example_types nil_decoder_handler create_valid))) =
     Some NilPointerDereference"
proof -
  have n: "validator nil_validator_handler = None"
    by (simp add: nil_validator_handler_def InjectDecoder_def ValidatingWebhookFor_def)
  have v: "validator nil_decoder_handler = Some example_validator"
    by (rule example_handler_fields)
  have p: "snd (Handle example_types nil_decoder_handler create_valid) =
      Inl NilPointerDereference"
    by (simp add: run_nil_decoder_create)
  from nil_validator_aborts [of nil_validator_handler example_types create_valid]
    nil_validator_aborts [of nil_decoder_handler example_types create_valid]
    n v p example_validator_DeepCopyObject
  show ?thesis by simp
qed

subsection \<open>C10: a nil decoder\<close>



end
